theory Spec2Isabelle
  imports Main
begin

unbundle bit_operations_syntax

section \<open>The Everything search adapter (src/index.ts)\<close>

text \<open>
  The adapter translates four tool calls into a fixed sequence of calls into the
  Everything SDK and renders the result set as text. The SDK itself is a native library
  outside the repository: its reply to a query is a parameter of the model
  (\<open>engine\<close> below), everything the TypeScript does with it is embedded here.

  Conventions of the embedding:
  \<^item> a JavaScript string is a \<open>string\<close>, one \<open>char\<close> per code unit (code units
    up to U+00FF); \<open>string | undefined\<close> and \<open>string | null\<close> are \<open>string option\<close>;
  \<^item> a JavaScript number that holds a count or a code is a \<open>nat\<close> (whole numbers
    only); the schemas bound \<open>maxResults\<close> by 1000, far below the 32 bits of the native
    parameters;
  \<^item> the engine's global query context is an explicit state, passed in and returned;
  \<^item> an exception is a value of \<open>js_error\<close>, the left summand of a result.
\<close>

subsection \<open>JavaScript strings\<close>

abbreviation backslash :: char where
  "backslash \<equiv> CHR 0x5C"

abbreviation newline :: char where
  "newline \<equiv> CHR 0x0A"

text \<open>Truthiness of an optional string: defined and not empty.\<close>

fun truthy :: "string option \<Rightarrow> bool" where
  "truthy None = False"
| "truthy (Some s) = (s \<noteq> [])"

text \<open>A value inside a template literal; \<open>null\<close> prints as the word.\<close>

fun template :: "string option \<Rightarrow> string" where
  "template None = ''null''"
| "template (Some s) = s"

datatype js_error = TypeError string

text \<open>\<open>x.endsWith(suffix)\<close>: a method call on \<open>null\<close> throws.\<close>

fun endsWith :: "string option \<Rightarrow> string \<Rightarrow> js_error + bool" where
  "endsWith None suffix = Inl (TypeError ''Cannot read properties of null'')"
| "endsWith (Some s) suffix =
     Inr (length suffix \<le> length s \<and> drop (length s - length suffix) s = suffix)"

text \<open>\<open>xs.join(sep)\<close>.\<close>

fun join :: "string \<Rightarrow> string list \<Rightarrow> string" where
  "join sep [] = []"
| "join sep [x] = x"
| "join sep (x # y # ys) = x @ sep @ join sep (y # ys)"

text \<open>\<open>s.split(c)\<close> for a separator of one character: the empty string gives one empty piece.\<close>

fun split_str :: "char \<Rightarrow> string \<Rightarrow> string list" where
  "split_str sep [] = [[]]"
| "split_str sep (c # cs) =
     (if c = sep then [] # split_str sep cs
      else (case split_str sep cs of
              [] \<Rightarrow> [[c]]
            | r # rs \<Rightarrow> (c # r) # rs))"

text \<open>\<open>s.trim()\<close>: white space and line terminators among the code units modelled.\<close>

definition is_space :: "char \<Rightarrow> bool" where
  "is_space c = (c \<in> set [CHR 0x09, CHR 0x0A, CHR 0x0B, CHR 0x0C, CHR 0x0D, CHR 0x20, CHR 0xA0])"

definition trim :: "string \<Rightarrow> string" where
  "trim s = rev (dropWhile is_space (rev (dropWhile is_space s)))"

text \<open>A non-negative integer inside a template literal: its decimal digits.\<close>

definition digit :: "nat \<Rightarrow> char" where
  "digit d = ''0123456789'' ! d"

fun show_nat :: "nat \<Rightarrow> string" where
  "show_nat n = (if n < 10 then [digit n] else show_nat (n div 10) @ [digit (n mod 10)])"

declare show_nat.simps [simp del]

subsection \<open>Everything SDK constants\<close>

definition EVERYTHING_OK :: nat where "EVERYTHING_OK = 0"
definition EVERYTHING_ERROR_MEMORY :: nat where "EVERYTHING_ERROR_MEMORY = 1"
definition EVERYTHING_ERROR_IPC :: nat where "EVERYTHING_ERROR_IPC = 2"
definition EVERYTHING_ERROR_REGISTERCLASSEX :: nat where "EVERYTHING_ERROR_REGISTERCLASSEX = 3"
definition EVERYTHING_ERROR_CREATEWINDOW :: nat where "EVERYTHING_ERROR_CREATEWINDOW = 4"
definition EVERYTHING_ERROR_CREATETHREAD :: nat where "EVERYTHING_ERROR_CREATETHREAD = 5"
definition EVERYTHING_ERROR_INVALIDINDEX :: nat where "EVERYTHING_ERROR_INVALIDINDEX = 6"
definition EVERYTHING_ERROR_INVALIDCALL :: nat where "EVERYTHING_ERROR_INVALIDCALL = 7"
definition EVERYTHING_ERROR_INVALIDREQUEST :: nat where "EVERYTHING_ERROR_INVALIDREQUEST = 8"
definition EVERYTHING_ERROR_INVALIDPARAMETER :: nat where "EVERYTHING_ERROR_INVALIDPARAMETER = 9"

definition EVERYTHING_SORT_NAME_ASCENDING :: nat where "EVERYTHING_SORT_NAME_ASCENDING = 1"
definition EVERYTHING_SORT_NAME_DESCENDING :: nat where "EVERYTHING_SORT_NAME_DESCENDING = 2"
definition EVERYTHING_SORT_PATH_ASCENDING :: nat where "EVERYTHING_SORT_PATH_ASCENDING = 3"
definition EVERYTHING_SORT_PATH_DESCENDING :: nat where "EVERYTHING_SORT_PATH_DESCENDING = 4"
definition EVERYTHING_SORT_SIZE_ASCENDING :: nat where "EVERYTHING_SORT_SIZE_ASCENDING = 5"
definition EVERYTHING_SORT_SIZE_DESCENDING :: nat where "EVERYTHING_SORT_SIZE_DESCENDING = 6"
definition EVERYTHING_SORT_DATE_MODIFIED_ASCENDING :: nat where
  "EVERYTHING_SORT_DATE_MODIFIED_ASCENDING = 13"
definition EVERYTHING_SORT_DATE_MODIFIED_DESCENDING :: nat where
  "EVERYTHING_SORT_DATE_MODIFIED_DESCENDING = 14"

definition EVERYTHING_REQUEST_FILE_NAME :: nat where "EVERYTHING_REQUEST_FILE_NAME = 0x00000001"
definition EVERYTHING_REQUEST_PATH :: nat where "EVERYTHING_REQUEST_PATH = 0x00000002"
definition EVERYTHING_REQUEST_FULL_PATH_AND_FILE_NAME :: nat where
  "EVERYTHING_REQUEST_FULL_PATH_AND_FILE_NAME = 0x00000004"

lemmas sdk_constants =
  EVERYTHING_OK_def EVERYTHING_ERROR_MEMORY_def EVERYTHING_ERROR_IPC_def
  EVERYTHING_ERROR_REGISTERCLASSEX_def EVERYTHING_ERROR_CREATEWINDOW_def
  EVERYTHING_ERROR_CREATETHREAD_def EVERYTHING_ERROR_INVALIDINDEX_def
  EVERYTHING_ERROR_INVALIDCALL_def EVERYTHING_ERROR_INVALIDREQUEST_def
  EVERYTHING_ERROR_INVALIDPARAMETER_def
  EVERYTHING_SORT_NAME_ASCENDING_def EVERYTHING_SORT_NAME_DESCENDING_def
  EVERYTHING_SORT_PATH_ASCENDING_def EVERYTHING_SORT_PATH_DESCENDING_def
  EVERYTHING_SORT_SIZE_ASCENDING_def EVERYTHING_SORT_SIZE_DESCENDING_def
  EVERYTHING_SORT_DATE_MODIFIED_ASCENDING_def EVERYTHING_SORT_DATE_MODIFIED_DESCENDING_def
  EVERYTHING_REQUEST_FILE_NAME_def EVERYTHING_REQUEST_PATH_def
  EVERYTHING_REQUEST_FULL_PATH_AND_FILE_NAME_def

subsection \<open>The native library boundary\<close>

text \<open>
  One row of the engine's current result list, as the four getters report it. The two
  string getters return \<open>null\<close> (\<open>None\<close>) where the engine has no value.
\<close>

record result_row =
  row_fileName :: "string option"
  row_path :: "string option"
  row_isFile :: bool
  row_isFolder :: bool

text \<open>The query context: the eight parameters the adapter has setters for.\<close>

record query_context =
  ctx_search :: string
  ctx_matchCase :: bool
  ctx_matchWholeWord :: bool
  ctx_regex :: bool
  ctx_max :: nat
  ctx_offset :: nat
  ctx_requestFlags :: nat
  ctx_sort :: nat

text \<open>
  The engine's answer to a query under a context: a failure with its error code, or the
  visible result rows together with the total number of matches. The adapter binds no
  function that reads the total; \<open>Everything_GetNumResults\<close> counts the visible rows.
\<close>

datatype engine_reply = QueryFailed nat | QueryOk "result_row list" nat

type_synonym engine = "query_context \<Rightarrow> engine_reply"

text \<open>The state of the library inside the adapter's process.\<close>

record everything =
  queryContext :: query_context
  lastError :: nat
  resultList :: "result_row list"
  totResults :: nat

definition Everything_SetSearchW :: "string \<Rightarrow> everything \<Rightarrow> everything" where
  "Everything_SetSearchW v s = s\<lparr>queryContext := (queryContext s)\<lparr>ctx_search := v\<rparr>\<rparr>"

definition Everything_SetMatchCase :: "bool \<Rightarrow> everything \<Rightarrow> everything" where
  "Everything_SetMatchCase v s = s\<lparr>queryContext := (queryContext s)\<lparr>ctx_matchCase := v\<rparr>\<rparr>"

definition Everything_SetMatchWholeWord :: "bool \<Rightarrow> everything \<Rightarrow> everything" where
  "Everything_SetMatchWholeWord v s = s\<lparr>queryContext := (queryContext s)\<lparr>ctx_matchWholeWord := v\<rparr>\<rparr>"

definition Everything_SetRegex :: "bool \<Rightarrow> everything \<Rightarrow> everything" where
  "Everything_SetRegex v s = s\<lparr>queryContext := (queryContext s)\<lparr>ctx_regex := v\<rparr>\<rparr>"

definition Everything_SetMax :: "nat \<Rightarrow> everything \<Rightarrow> everything" where
  "Everything_SetMax v s = s\<lparr>queryContext := (queryContext s)\<lparr>ctx_max := v\<rparr>\<rparr>"

definition Everything_SetOffset :: "nat \<Rightarrow> everything \<Rightarrow> everything" where
  "Everything_SetOffset v s = s\<lparr>queryContext := (queryContext s)\<lparr>ctx_offset := v\<rparr>\<rparr>"

definition Everything_SetRequestFlags :: "nat \<Rightarrow> everything \<Rightarrow> everything" where
  "Everything_SetRequestFlags v s = s\<lparr>queryContext := (queryContext s)\<lparr>ctx_requestFlags := v\<rparr>\<rparr>"

definition Everything_SetSort :: "nat \<Rightarrow> everything \<Rightarrow> everything" where
  "Everything_SetSort v s = s\<lparr>queryContext := (queryContext s)\<lparr>ctx_sort := v\<rparr>\<rparr>"

text \<open>
  \<open>Everything_QueryW(true)\<close>, the blocking form: the engine answers for the context in
  force; a failure records its code, a success replaces the result list.
\<close>

definition Everything_QueryW :: "engine \<Rightarrow> everything \<Rightarrow> bool \<times> everything" where
  "Everything_QueryW eng s =
     (case eng (queryContext s) of
        QueryFailed code \<Rightarrow> (False, s\<lparr>lastError := code\<rparr>)
      | QueryOk rows tot \<Rightarrow>
          (True, s\<lparr>lastError := EVERYTHING_OK, resultList := rows, totResults := tot\<rparr>))"

definition Everything_GetLastError :: "everything \<Rightarrow> nat" where
  "Everything_GetLastError s = lastError s"

definition Everything_GetNumResults :: "everything \<Rightarrow> nat" where
  "Everything_GetNumResults s = length (resultList s)"

text \<open>The getters by index; past the end of the list they give \<open>null\<close> and \<open>false\<close>.\<close>

definition Everything_GetResultFileNameW :: "everything \<Rightarrow> nat \<Rightarrow> string option" where
  "Everything_GetResultFileNameW s i =
     (if i < length (resultList s) then row_fileName (resultList s ! i) else None)"

definition Everything_GetResultPathW :: "everything \<Rightarrow> nat \<Rightarrow> string option" where
  "Everything_GetResultPathW s i =
     (if i < length (resultList s) then row_path (resultList s ! i) else None)"

definition Everything_IsFileResult :: "everything \<Rightarrow> nat \<Rightarrow> bool" where
  "Everything_IsFileResult s i = (i < length (resultList s) \<and> row_isFile (resultList s ! i))"

definition Everything_IsFolderResult :: "everything \<Rightarrow> nat \<Rightarrow> bool" where
  "Everything_IsFolderResult s i = (i < length (resultList s) \<and> row_isFolder (resultList s ! i))"

subsection \<open>searchWithEverything\<close>

record options =
  opt_maxResults :: "nat option"
  opt_matchCase :: "bool option"
  opt_matchWholeWord :: "bool option"
  opt_regex :: "bool option"
  opt_sortBy :: "string option"

text \<open>The default parameter \<open>options = {}\<close>.\<close>

definition no_options :: options where
  "no_options =
     \<lparr>opt_maxResults = None, opt_matchCase = None, opt_matchWholeWord = None,
      opt_regex = None, opt_sortBy = None\<rparr>"

record outcome =
  results :: "string list"
  totalResults :: nat
  error :: "string option"

text \<open>\<open>flag || false\<close> and \<open>options.maxResults || 100\<close>: \<open>undefined\<close> and \<open>0\<close> are falsy.\<close>

fun or_false :: "bool option \<Rightarrow> bool" where
  "or_false None = False"
| "or_false (Some b) = b"

fun or_100 :: "nat option \<Rightarrow> nat" where
  "or_100 None = 100"
| "or_100 (Some n) = (if n = 0 then 100 else n)"

text \<open>The \<open>switch (options.sortBy)\<close> of lines 99 to 122.\<close>

definition sortOrder :: "string option \<Rightarrow> nat" where
  "sortOrder sortBy =
     (if sortBy = Some ''name_desc'' then EVERYTHING_SORT_NAME_DESCENDING
      else if sortBy = Some ''path_asc'' then EVERYTHING_SORT_PATH_ASCENDING
      else if sortBy = Some ''path_desc'' then EVERYTHING_SORT_PATH_DESCENDING
      else if sortBy = Some ''size_asc'' then EVERYTHING_SORT_SIZE_ASCENDING
      else if sortBy = Some ''size_desc'' then EVERYTHING_SORT_SIZE_DESCENDING
      else if sortBy = Some ''date_asc'' then EVERYTHING_SORT_DATE_MODIFIED_ASCENDING
      else if sortBy = Some ''date_desc'' then EVERYTHING_SORT_DATE_MODIFIED_DESCENDING
      else EVERYTHING_SORT_NAME_ASCENDING)"

text \<open>Lines 88 to 123: the eight setter calls, in the order of the source.\<close>

definition set_search_parameters :: "string \<Rightarrow> options \<Rightarrow> everything \<Rightarrow> everything" where
  "set_search_parameters query opts s0 =
     (let s1 = Everything_SetSearchW query s0;
          s2 = Everything_SetMatchCase (or_false (opt_matchCase opts)) s1;
          s3 = Everything_SetMatchWholeWord (or_false (opt_matchWholeWord opts)) s2;
          s4 = Everything_SetRegex (or_false (opt_regex opts)) s3;
          s5 = Everything_SetMax (or_100 (opt_maxResults opts)) s4;
          s6 = Everything_SetOffset 0 s5;
          s7 = Everything_SetRequestFlags
                 (EVERYTHING_REQUEST_FILE_NAME OR EVERYTHING_REQUEST_PATH
                    OR EVERYTHING_REQUEST_FULL_PATH_AND_FILE_NAME) s6
      in Everything_SetSort (sortOrder (opt_sortBy opts)) s7)"

text \<open>Lines 130 to 160: the message for the engine's last-error code.\<close>

definition errorMessage :: "nat \<Rightarrow> string" where
  "errorMessage errorCode =
     (if errorCode = EVERYTHING_ERROR_MEMORY then ''Out of memory''
      else if errorCode = EVERYTHING_ERROR_IPC then ''Everything search client is not running''
      else if errorCode = EVERYTHING_ERROR_REGISTERCLASSEX then ''Unable to register window class''
      else if errorCode = EVERYTHING_ERROR_CREATEWINDOW then ''Unable to create listening window''
      else if errorCode = EVERYTHING_ERROR_CREATETHREAD then ''Unable to create listening thread''
      else if errorCode = EVERYTHING_ERROR_INVALIDINDEX then ''Invalid index''
      else if errorCode = EVERYTHING_ERROR_INVALIDCALL then ''Invalid call''
      else if errorCode = EVERYTHING_ERROR_INVALIDREQUEST
        then ''Invalid request data, request data first''
      else if errorCode = EVERYTHING_ERROR_INVALIDPARAMETER then ''Bad parameter''
      else ''Everything query failed with error code: '' @ show_nat errorCode)"

text \<open>Lines 175 to 180: the full path of a row.\<close>

definition fullPath :: "string option \<Rightarrow> string option \<Rightarrow> js_error + string" where
  "fullPath path fileName =
     (if truthy path \<and> truthy fileName then
        (case endsWith path [backslash] of
           Inl e \<Rightarrow> Inl e
         | Inr ends \<Rightarrow>
             Inr (if ends then template path @ template fileName
                  else template path @ [backslash] @ template fileName))
      else if truthy fileName then Inr (template fileName)
      else Inr [])"

text \<open>Line 182: the tag of a row.\<close>

definition type_tag :: "bool \<Rightarrow> bool \<Rightarrow> string" where
  "type_tag isFile isFolder =
     (if isFile then ''[FILE]'' else if isFolder then ''[FOLDER]'' else ''[UNKNOWN]'')"

text \<open>Lines 170 to 183: the body of the loop for index \<open>i\<close>, giving the line pushed.\<close>

definition result_line :: "everything \<Rightarrow> nat \<Rightarrow> js_error + string" where
  "result_line s i =
     (let fileName = Everything_GetResultFileNameW s i;
          path = Everything_GetResultPathW s i;
          isFile = Everything_IsFileResult s i;
          isFolder = Everything_IsFolderResult s i
      in case fullPath path fileName of
           Inl e \<Rightarrow> Inl e
         | Inr fp \<Rightarrow> Inr (type_tag isFile isFolder @ '' '' @ fp))"

text \<open>The loop \<open>for (let i = 0; i < numResults; i++)\<close>, from index \<open>i\<close> with the lines so far.\<close>

function result_loop :: "everything \<Rightarrow> nat \<Rightarrow> nat \<Rightarrow> string list \<Rightarrow> js_error + string list" where
  "result_loop s numResults i acc =
     (if i < numResults then
        (case result_line s i of
           Inl e \<Rightarrow> Inl e
         | Inr line \<Rightarrow> result_loop s numResults (Suc i) (acc @ [line]))
      else Inr acc)"
  by pat_completeness auto
termination
  by (relation "measure (\<lambda>(s, numResults, i, acc). numResults - i)") auto

declare result_loop.simps [simp del]

fun message :: "js_error \<Rightarrow> string" where
  "message (TypeError m) = m"

text \<open>
  The whole function: the \<open>try\<close> block and its \<open>catch\<close>, which turns an exception into an
  outcome with an \<open>error\<close>. The native calls themselves are taken to return.
\<close>

definition searchWithEverything ::
  "engine \<Rightarrow> string \<Rightarrow> options \<Rightarrow> everything \<Rightarrow> outcome \<times> everything" where
  "searchWithEverything eng query opts s0 =
     (let s1 = set_search_parameters query opts s0;
          (success, s2) = Everything_QueryW eng s1
      in if \<not> success then
           (\<lparr>results = [], totalResults = 0,
             error = Some (errorMessage (Everything_GetLastError s2))\<rparr>, s2)
         else
           (let numResults = Everything_GetNumResults s2
            in case result_loop s2 numResults 0 [] of
                 Inr rs \<Rightarrow> (\<lparr>results = rs, totalResults = numResults, error = None\<rparr>, s2)
               | Inl e \<Rightarrow>
                   (\<lparr>results = [], totalResults = 0,
                     error = Some (''Everything search failed: '' @ message e)\<rparr>, s2)))"

subsection \<open>The tool handlers\<close>

text \<open>
  A tool response: the text of its single content block and the \<open>isError\<close> flag (absent
  counts as false). Inside a handler nothing but \<open>searchWithEverything\<close> can fail, and
  that function catches its own exceptions, so the handlers' \<open>catch\<close> blocks have no
  branch here.
\<close>

record response =
  resp_text :: string
  resp_isError :: bool

text \<open>A destructuring default: \<open>maxResults = 20\<close> applies to \<open>undefined\<close> only.\<close>

fun or_default :: "'a option \<Rightarrow> 'a \<Rightarrow> 'a" where
  "or_default None d = d"
| "or_default (Some v) d = v"

text \<open>The bound \<open>z.number().min(lo).max(hi).optional()\<close> of a schema.\<close>

fun within :: "nat \<Rightarrow> nat \<Rightarrow> nat option \<Rightarrow> bool" where
  "within lo hi None = True"
| "within lo hi (Some n) = (lo \<le> n \<and> n \<le> hi)"

definition error_response :: "string \<Rightarrow> response" where
  "error_response t = \<lparr>resp_text = t, resp_isError = True\<rparr>"

definition text_response :: "string \<Rightarrow> response" where
  "text_response t = \<lparr>resp_text = t, resp_isError = False\<rparr>"

paragraph \<open>search_files\<close>

definition search_files_schema :: "nat option \<Rightarrow> bool" where
  "search_files_schema maxResults = within 1 20 maxResults"

definition search_files ::
  "engine \<Rightarrow> string \<Rightarrow> nat option \<Rightarrow> bool option \<Rightarrow> bool option \<Rightarrow> bool option \<Rightarrow>
   everything \<Rightarrow> response \<times> everything" where
  \<open>search_files eng query maxResults matchCase matchWholeWord regex s =
     (let (out, s') = searchWithEverything eng query
            \<lparr>opt_maxResults = Some (or_default maxResults 20),
             opt_matchCase = Some (or_default matchCase False),
             opt_matchWholeWord = Some (or_default matchWholeWord False),
             opt_regex = Some (or_default regex False),
             opt_sortBy = None\<rparr> s
      in if truthy (error out) then
           (error_response (''Error: '' @ template (error out)), s')
         else
           (text_response
              (if length (results out) > 0 then
                 ''Found '' @ show_nat (totalResults out) @ '' files (showing ''
                   @ show_nat (length (results out)) @ ''):'' @ [newline, newline]
                   @ join [newline] (results out)
               else ''No files found matching "'' @ query @ ''"''), s'))\<close>

paragraph \<open>search_files_advanced\<close>

definition search_files_advanced_schema :: "nat option \<Rightarrow> string option \<Rightarrow> bool" where
  "search_files_advanced_schema maxResults sortBy =
     (within 1 1000 maxResults \<and>
      (case sortBy of
         None \<Rightarrow> True
       | Some k \<Rightarrow> k \<in> set [''name_asc'', ''name_desc'', ''path_asc'', ''path_desc'',
                            ''size_asc'', ''size_desc'', ''date_asc'', ''date_desc'']))"

text \<open>Lines 330 to 346: the search text with the filters in front.\<close>

definition advanced_searchQuery ::
  "string \<Rightarrow> string option \<Rightarrow> string option \<Rightarrow> string option \<Rightarrow> string option \<Rightarrow> string" where
  \<open>advanced_searchQuery query path extension size' dateModified =
     (let searchQuery = query;
          searchQuery = (if truthy path
                         then ''path:"'' @ template path @ ''" '' @ searchQuery
                         else searchQuery);
          searchQuery = (if truthy extension
                         then ''ext:'' @ template extension @ '' '' @ searchQuery
                         else searchQuery);
          searchQuery = (if truthy size'
                         then ''size:'' @ template size' @ '' '' @ searchQuery
                         else searchQuery);
          searchQuery = (if truthy dateModified
                         then ''dm:'' @ template dateModified @ '' '' @ searchQuery
                         else searchQuery)
      in searchQuery)\<close>

text \<open>Lines 371 to 375: the filters named in the summary.\<close>

definition advanced_filters ::
  "string option \<Rightarrow> string option \<Rightarrow> string option \<Rightarrow> string option \<Rightarrow> string list" where
  \<open>advanced_filters path extension size' dateModified =
     (if truthy path then [''path: "'' @ template path @ ''"''] else [])
     @ (if truthy extension then [''extension: '' @ template extension] else [])
     @ (if truthy size' then [''size: '' @ template size'] else [])
     @ (if truthy dateModified then [''date modified: '' @ template dateModified] else [])\<close>

definition search_files_advanced ::
  "engine \<Rightarrow> string \<Rightarrow> string option \<Rightarrow> string option \<Rightarrow> string option \<Rightarrow> string option \<Rightarrow>
   nat option \<Rightarrow> bool option \<Rightarrow> bool option \<Rightarrow> bool option \<Rightarrow> string option \<Rightarrow>
   everything \<Rightarrow> response \<times> everything" where
  \<open>search_files_advanced eng query path extension size' dateModified
       maxResults matchCase matchWholeWord regex sortBy s =
     (let sortBy' = or_default sortBy ''name_asc'';
          searchQuery = advanced_searchQuery query path extension size' dateModified;
          (out, s') = searchWithEverything eng searchQuery
            \<lparr>opt_maxResults = Some (or_default maxResults 100),
             opt_matchCase = Some (or_default matchCase False),
             opt_matchWholeWord = Some (or_default matchWholeWord False),
             opt_regex = Some (or_default regex False),
             opt_sortBy = Some sortBy'\<rparr> s
      in if truthy (error out) then
           (error_response (''Error: '' @ template (error out)), s')
         else
           (let responseText = ''Found '' @ show_nat (totalResults out) @ '' files'';
                filters = advanced_filters path extension size' dateModified;
                responseText =
                  (if length filters > 0
                   then responseText @ '' (filtered by '' @ join '', '' filters @ '')''
                   else responseText);
                responseText = responseText @ '' (showing '' @ show_nat (length (results out))
                  @ '', sorted by '' @ sortBy' @ ''):'' @ [newline, newline]
                  @ (if length (results out) > 0 then join [newline] (results out)
                     else ''No files found matching "'' @ query @ ''"'')
            in (text_response responseText, s')))\<close>

paragraph \<open>find_duplicates\<close>

definition find_duplicates_schema :: "nat option \<Rightarrow> bool" where
  "find_duplicates_schema maxResults = within 1 1000 maxResults"

text \<open>Lines 416 to 420.\<close>

definition duplicates_searchQuery :: "string \<Rightarrow> string option \<Rightarrow> string" where
  \<open>duplicates_searchQuery filename path =
     (let searchQuery = filename
      in if truthy path then ''path:"'' @ template path @ ''" '' @ searchQuery
         else searchQuery)\<close>

text \<open>\<open>results[0]\<close> inside a template literal: \<open>undefined\<close> on an empty array.\<close>

fun first_result :: "string list \<Rightarrow> string" where
  "first_result [] = ''undefined''"
| "first_result (r # rs) = r"

definition find_duplicates ::
  "engine \<Rightarrow> string \<Rightarrow> string option \<Rightarrow> nat option \<Rightarrow> everything \<Rightarrow> response \<times> everything" where
  \<open>find_duplicates eng filename path maxResults s =
     (let searchQuery = duplicates_searchQuery filename path;
          (out, s') = searchWithEverything eng searchQuery
            (no_options\<lparr>opt_maxResults := Some (or_default maxResults 50),
                        opt_matchWholeWord := Some True\<rparr>) s
      in if truthy (error out) then
           (error_response (''Error: '' @ template (error out)), s')
         else
           (text_response
              (if totalResults out > 1 then
                 ''Found '' @ show_nat (totalResults out) @ '' instances of "'' @ filename
                   @ ''" (showing '' @ show_nat (length (results out)) @ ''):''
                   @ [newline, newline] @ join [newline] (results out)
               else if totalResults out = 1 then
                 ''Found only 1 instance of "'' @ filename @ ''":'' @ [newline, newline]
                   @ first_result (results out)
               else ''No files found with name "'' @ filename @ ''"''), s'))\<close>

paragraph \<open>search_content\<close>

definition search_content_schema :: "nat option \<Rightarrow> bool" where
  "search_content_schema maxResults = within 1 1000 maxResults"

text \<open>Line 502: the alternatives of the file-type group.\<close>

definition content_types :: "string \<Rightarrow> string" where
  "content_types fileTypes =
     join '' | '' (map (\<lambda>t. ''ext:'' @ trim t) (split_str (CHR '';'') fileTypes))"

text \<open>Lines 499 to 508.\<close>

definition content_searchQuery :: "string \<Rightarrow> string option \<Rightarrow> string option \<Rightarrow> string" where
  \<open>content_searchQuery content fileTypes path =
     (let searchQuery = ''content:"'' @ content @ ''"'';
          searchQuery = (if truthy fileTypes
                         then ''('' @ content_types (template fileTypes) @ '') '' @ searchQuery
                         else searchQuery);
          searchQuery = (if truthy path
                         then ''path:"'' @ template path @ ''" '' @ searchQuery
                         else searchQuery)
      in searchQuery)\<close>

abbreviation content_note :: string where
  "content_note \<equiv> ''Note: Content search requires Everything to have content indexing enabled.''"

definition search_content ::
  "engine \<Rightarrow> string \<Rightarrow> string option \<Rightarrow> string option \<Rightarrow> nat option \<Rightarrow>
   everything \<Rightarrow> response \<times> everything" where
  \<open>search_content eng content fileTypes path maxResults s =
     (let searchQuery = content_searchQuery content fileTypes path;
          (out, s') = searchWithEverything eng searchQuery
            (no_options\<lparr>opt_maxResults := Some (or_default maxResults 50)\<rparr>) s
      in if truthy (error out) then
           (error_response (''Error: '' @ template (error out) @ ''. '' @ content_note), s')
         else
           (text_response
              (if length (results out) > 0 then
                 ''Found '' @ show_nat (totalResults out) @ '' files containing "'' @ content
                   @ ''" (showing '' @ show_nat (length (results out)) @ ''):''
                   @ [newline, newline] @ join [newline] (results out)
               else ''No files found containing "'' @ content @ ''". '' @ content_note), s'))\<close>

paragraph \<open>The tool surface\<close>

datatype tool_call =
  Search_files string "nat option" "bool option" "bool option" "bool option"
| Search_files_advanced string "string option" "string option" "string option" "string option"
    "nat option" "bool option" "bool option" "bool option" "string option"
| Find_duplicates string "string option" "nat option"
| Search_content string "string option" "string option" "nat option"

fun call_tool :: "engine \<Rightarrow> tool_call \<Rightarrow> everything \<Rightarrow> response \<times> everything" where
  "call_tool eng (Search_files query maxResults matchCase matchWholeWord regex) s =
     search_files eng query maxResults matchCase matchWholeWord regex s"
| "call_tool eng (Search_files_advanced query path extension size' dateModified
       maxResults matchCase matchWholeWord regex sortBy) s =
     search_files_advanced eng query path extension size' dateModified
       maxResults matchCase matchWholeWord regex sortBy s"
| "call_tool eng (Find_duplicates filename path maxResults) s =
     find_duplicates eng filename path maxResults s"
| "call_tool eng (Search_content content fileTypes path maxResults) s =
     search_content eng content fileTypes path maxResults s"

fun schema_ok :: "tool_call \<Rightarrow> bool" where
  "schema_ok (Search_files query maxResults matchCase matchWholeWord regex) =
     search_files_schema maxResults"
| "schema_ok (Search_files_advanced query path extension size' dateModified
       maxResults matchCase matchWholeWord regex sortBy) =
     search_files_advanced_schema maxResults sortBy"
| "schema_ok (Find_duplicates filename path maxResults) = find_duplicates_schema maxResults"
| "schema_ok (Search_content content fileTypes path maxResults) =
     search_content_schema maxResults"

subsection \<open>Descriptions used in the statements\<close>

text \<open>The context a call with these arguments is to leave in the engine, field by field.\<close>

definition written_context :: "string \<Rightarrow> options \<Rightarrow> query_context" where
  "written_context query opts =
     \<lparr>ctx_search = query,
      ctx_matchCase = or_false (opt_matchCase opts),
      ctx_matchWholeWord = or_false (opt_matchWholeWord opts),
      ctx_regex = or_false (opt_regex opts),
      ctx_max = or_100 (opt_maxResults opts),
      ctx_offset = 0,
      ctx_requestFlags = 7,
      ctx_sort = sortOrder (opt_sortBy opts)\<rparr>"

text \<open>The line of one row, read off the row instead of through the getters.\<close>

definition row_line :: "result_row \<Rightarrow> string" where
  "row_line r =
     (case fullPath (row_path r) (row_fileName r) of
        Inl e \<Rightarrow> []
      | Inr fp \<Rightarrow> type_tag (row_isFile r) (row_isFolder r) @ '' '' @ fp)"

text \<open>The \<open>maxResults\<close> a tool call asks for, with the default of its handler.\<close>

fun requested_max :: "tool_call \<Rightarrow> nat" where
  "requested_max (Search_files query maxResults matchCase matchWholeWord regex) =
     or_default maxResults 20"
| "requested_max (Search_files_advanced query path extension size' dateModified
       maxResults matchCase matchWholeWord regex sortBy) = or_default maxResults 100"
| "requested_max (Find_duplicates filename path maxResults) = or_default maxResults 50"
| "requested_max (Search_content content fileTypes path maxResults) = or_default maxResults 50"

text \<open>An engine keeps to the cap when it never shows more rows than \<open>ctx_max\<close> allows.\<close>

definition honours_max :: "engine \<Rightarrow> bool" where
  "honours_max eng =
     (\<forall>ctx. case eng ctx of QueryFailed code \<Rightarrow> True
                          | QueryOk rows tot \<Rightarrow> length rows \<le> ctx_max ctx)"

subsection \<open>Engines and rows for the examples\<close>

text \<open>An engine over a fixed list of matches: it shows the window the context asks for
  and reports how many matches there are in all.\<close>

definition capped_engine :: "result_row list \<Rightarrow> engine" where
  "capped_engine matches ctx =
     QueryOk (take (ctx_max ctx) (drop (ctx_offset ctx) matches)) (length matches)"

text \<open>An engine whose query fails with a given code.\<close>

definition failing_engine :: "nat \<Rightarrow> engine" where
  "failing_engine code ctx = QueryFailed code"

definition file_row :: "string \<Rightarrow> string \<Rightarrow> result_row" where
  "file_row dir name =
     \<lparr>row_fileName = Some name, row_path = Some dir, row_isFile = True, row_isFolder = False\<rparr>"

definition three_matches :: "result_row list" where
  "three_matches =
     [file_row (''C:'' @ [backslash] @ ''Users'' @ [backslash] @ ''x'') ''a.txt'',
      file_row (''D:'' @ [backslash]) ''a.txt'',
      file_row (''E:'' @ [backslash] @ ''data'') ''a.txt'']"

text \<open>The library before any call: the context of an earlier, unrelated query.\<close>

definition stale :: everything where
  "stale =
     \<lparr>queryContext =
        \<lparr>ctx_search = ''old'', ctx_matchCase = True, ctx_matchWholeWord = True,
         ctx_regex = True, ctx_max = 5, ctx_offset = 40, ctx_requestFlags = 80,
         ctx_sort = 14\<rparr>,
      lastError = 7,
      resultList = [file_row ''Z:'' ''stale.bin''],
      totResults = 9\<rparr>"

section \<open>Properties\<close>

subsection \<open>The search function in closed form\<close>

lemma endsWith_last: "endsWith (Some p) [c] = Inr (p \<noteq> [] \<and> last p = c)"
proof (cases p rule: rev_cases)
  case Nil then show ?thesis by simp
next
  case (snoc ys y) then show ?thesis by simp
qed

lemma fullPath_total: "\<exists>fp. fullPath path fileName = Inr fp"
  by (cases path) (simp_all add: fullPath_def)

lemma result_line_row:
  "result_line s i =
     Inr (if i < length (resultList s) then row_line (resultList s ! i) else ''[UNKNOWN] '')"
  using fullPath_total[of "row_path (resultList s ! i)" "row_fileName (resultList s ! i)"]
  by (auto simp: result_line_def row_line_def Everything_GetResultFileNameW_def
        Everything_GetResultPathW_def Everything_IsFileResult_def Everything_IsFolderResult_def
        type_tag_def fullPath_def)

lemma result_loop_rows:
  "numResults \<le> length (resultList s) \<Longrightarrow>
   result_loop s numResults i acc = Inr (acc @ map row_line (drop i (take numResults (resultList s))))"
proof (induction s numResults i acc rule: result_loop.induct)
  case (1 s numResults i acc)
  show ?case
  proof (cases "i < numResults")
    case True
    with "1.prems" have il: "i < length (resultList s)" by simp
    have line: "result_line s i = Inr (row_line (resultList s ! i))"
      using il by (simp add: result_line_row)
    have step: "result_loop s numResults i acc =
          result_loop s numResults (Suc i) (acc @ [row_line (resultList s ! i)])"
      using True line by (subst result_loop.simps) simp
    have d: "drop i (take numResults (resultList s)) =
          resultList s ! i # drop (Suc i) (take numResults (resultList s))"
      using True il by (simp add: Cons_nth_drop_Suc[symmetric])
    show ?thesis
      using "1.IH"[OF True line "1.prems"] step d by simp
  next
    case False
    then show ?thesis by (subst result_loop.simps) simp
  qed
qed

lemma set_search_parameters_context:
  "queryContext (set_search_parameters query opts s) = written_context query opts"
  by (simp add: set_search_parameters_def written_context_def Let_def
        Everything_SetSearchW_def Everything_SetMatchCase_def Everything_SetMatchWholeWord_def
        Everything_SetRegex_def Everything_SetMax_def Everything_SetOffset_def
        Everything_SetRequestFlags_def Everything_SetSort_def
        EVERYTHING_REQUEST_FILE_NAME_def EVERYTHING_REQUEST_PATH_def
        EVERYTHING_REQUEST_FULL_PATH_AND_FILE_NAME_def)

lemma searchWithEverything_outcome:
  "fst (searchWithEverything eng query opts s) =
     (case eng (written_context query opts) of
        QueryFailed code \<Rightarrow> \<lparr>results = [], totalResults = 0, error = Some (errorMessage code)\<rparr>
      | QueryOk rows tot \<Rightarrow>
          \<lparr>results = map row_line rows, totalResults = length rows, error = None\<rparr>)"
proof (cases "eng (written_context query opts)")
  case (QueryFailed code)
  then show ?thesis
    by (simp add: searchWithEverything_def Everything_QueryW_def set_search_parameters_context
          Everything_GetLastError_def)
next
  case (QueryOk rows tot)
  then show ?thesis
    by (simp add: searchWithEverything_def Everything_QueryW_def set_search_parameters_context
          Everything_GetNumResults_def result_loop_rows)
qed

lemma searchWithEverything_context:
  "queryContext (snd (searchWithEverything eng query opts s)) = written_context query opts"
  by (cases "eng (written_context query opts)")
     (simp_all add: searchWithEverything_def Everything_QueryW_def set_search_parameters_context
          Everything_GetNumResults_def result_loop_rows Let_def)


lemma searchWithEverything_fst_indep:
  "fst (searchWithEverything eng query opts s) = fst (searchWithEverything eng query opts s')"
  by (simp only: searchWithEverything_outcome)

lemma call_tool_indep: "fst (call_tool eng c s) = fst (call_tool eng c s')"
proof (cases c)
  case (Search_files query maxResults matchCase matchWholeWord regex)
  then show ?thesis
    using searchWithEverything_fst_indep[of eng _ _ s s']
    by (simp add: search_files_def split_beta)
next
  case (Search_files_advanced query path extension size' dateModified
          maxResults matchCase matchWholeWord regex sortBy)
  then show ?thesis
    using searchWithEverything_fst_indep[of eng _ _ s s']
    by (simp add: search_files_advanced_def split_beta Let_def)
next
  case (Find_duplicates filename path maxResults)
  then show ?thesis
    using searchWithEverything_fst_indep[of eng _ _ s s']
    by (simp add: find_duplicates_def split_beta Let_def)
next
  case (Search_content content fileTypes path maxResults)
  then show ?thesis
    using searchWithEverything_fst_indep[of eng _ _ s s']
    by (simp add: search_content_def split_beta Let_def)
qed


subsection \<open>Formatting of result rows\<close>

text \<open>
  Claim C6 as stated speaks of every result row. It fails on a row that lacks one of the
  two parts: with a directory path and no file name the full path is empty, not the
  directory path with a backslash, and with an empty directory path the full path is the
  file name without a backslash in front.
\<close>

theorem fullPath_every_row_counterexample:
  "fullPath (Some ''C:'') None = Inr []
   \<and> fullPath (Some ''C:'') None \<noteq> Inr (''C:'' @ [backslash])
   \<and> fullPath (Some []) (Some ''a.txt'') = Inr ''a.txt''
   \<and> fullPath (Some []) (Some ''a.txt'') \<noteq> Inr ([backslash] @ ''a.txt'')
   \<and> result_line
         (stale\<lparr>resultList :=
            [\<lparr>row_fileName = None, row_path = Some ''C:'',
              row_isFile = False, row_isFolder = True\<rparr>]\<rparr>) 0 = Inr ''[FOLDER] ''"
  by (simp add: fullPath_def result_line_def type_tag_def Everything_GetResultFileNameW_def
        Everything_GetResultPathW_def Everything_IsFileResult_def Everything_IsFolderResult_def)

text \<open>
  Claim C6, amended. For every result row that has both a directory path and a file name
  (each present and not empty), the full path is the directory path, a backslash unless
  the directory path already ends with one, and the file name, as in the example of the
  specification; a directory path that ends with a backslash gets no second one.
\<close>

theorem fullPath_joins_with_backslash:
  "(p \<noteq> [] \<and> f \<noteq> [] \<longrightarrow>
      fullPath (Some p) (Some f) =
        Inr (if last p = backslash then p @ f else p @ [backslash] @ f))
   \<and> (f \<noteq> [] \<longrightarrow> fullPath (Some (d @ [backslash])) (Some f) = Inr (d @ [backslash] @ f))
   \<and> (i < length (resultList s) \<and> row_path (resultList s ! i) = Some p \<and> p \<noteq> []
        \<and> row_fileName (resultList s ! i) = Some f \<and> f \<noteq> [] \<longrightarrow>
      result_line s i =
        Inr (type_tag (row_isFile (resultList s ! i)) (row_isFolder (resultList s ! i)) @ '' ''
             @ (if last p = backslash then p @ f else p @ [backslash] @ f)))
   \<and> fullPath (Some (''C:'' @ [backslash] @ ''Users'' @ [backslash] @ ''x'')) (Some ''a.txt'')
        = Inr (''C:'' @ [backslash] @ ''Users'' @ [backslash] @ ''x'' @ [backslash] @ ''a.txt'')"
proof -
  have join: "fullPath (Some p') (Some f') =
        Inr (if last p' = backslash then p' @ f' else p' @ [backslash] @ f')"
    if "p' \<noteq> []" "f' \<noteq> []" for p' f'
    using that by (simp add: fullPath_def endsWith_last del: endsWith.simps)
  have row: "result_line s i =
        Inr (type_tag (row_isFile (resultList s ! i)) (row_isFolder (resultList s ! i)) @ '' ''
             @ (if last p = backslash then p @ f else p @ [backslash] @ f))"
    if "i < length (resultList s)" "row_path (resultList s ! i) = Some p" "p \<noteq> []"
       "row_fileName (resultList s ! i) = Some f" "f \<noteq> []"
    using that join[of p f] by (simp add: result_line_row row_line_def)
  have ex: "fullPath (Some (''C:'' @ [backslash] @ ''Users'' @ [backslash] @ ''x'')) (Some ''a.txt'')
        = Inr (''C:'' @ [backslash] @ ''Users'' @ [backslash] @ ''x'' @ [backslash] @ ''a.txt'')"
    by (simp add: fullPath_def)
  show ?thesis
    using join[of p f] join[of "d @ [backslash]" f] row ex by simp
qed

theorem fullPath_joins_with_backslash_witness:
  "fullPath (Some (''D:'' @ [backslash])) (Some ''a.txt'') = Inr (''D:'' @ [backslash] @ ''a.txt'')
   \<and> fullPath (Some ''E:/data'') (Some ''b'') = Inr (''E:/data'' @ [backslash] @ ''b'')
   \<and> result_line stale 0 = Inr (''[FILE] Z:'' @ [backslash] @ ''stale.bin'')"
  using fullPath_joins_with_backslash[of "''D:'' @ [backslash]" "''a.txt''" "''D:''" 0 stale]
        fullPath_joins_with_backslash[of "''E:/data''" "''b''" "''''" 0 stale]
        fullPath_joins_with_backslash[of "''Z:''" "''stale.bin''" "''''" 0 stale]
  by (simp add: stale_def file_row_def type_tag_def)



subsection \<open>State after a call, and example engines\<close>

lemma searchWithEverything_state:
  "snd (searchWithEverything eng query opts s) =
     snd (Everything_QueryW eng (set_search_parameters query opts s))"
  by (cases "eng (written_context query opts)")
     (simp_all add: searchWithEverything_def Everything_QueryW_def set_search_parameters_context
          Everything_GetNumResults_def result_loop_rows Let_def)

lemma searchWithEverything_resultList:
  "eng (written_context query opts) = QueryOk rows tot \<Longrightarrow>
   resultList (snd (searchWithEverything eng query opts s)) = rows
   \<and> totResults (snd (searchWithEverything eng query opts s)) = tot"
  by (simp add: searchWithEverything_state Everything_QueryW_def set_search_parameters_context)

lemma capped_engine_three:
  "capped_engine three_matches (written_context query opts) =
     QueryOk (take (or_100 (opt_maxResults opts)) three_matches) 3"
  by (simp add: capped_engine_def written_context_def three_matches_def)


lemma errorMessage_not_empty: "errorMessage code \<noteq> []"
  by (simp add: errorMessage_def)

lemma failing_engine_outcome:
  "fst (searchWithEverything (failing_engine code) query opts s) =
     \<lparr>results = [], totalResults = 0, error = Some (errorMessage code)\<rparr>"
  by (simp add: searchWithEverything_outcome failing_engine_def)

lemma capped_engine_honours_max: "honours_max (capped_engine matches)"
  by (simp add: honours_max_def capped_engine_def)

lemma result_lines_within_maxResults:
  assumes "honours_max eng" and "opt_maxResults opts = Some m" and "1 \<le> m"
  shows "length (results (fst (searchWithEverything eng query opts s))) \<le> m"
proof (cases "eng (written_context query opts)")
  case (QueryFailed code)
  then show ?thesis by (simp add: searchWithEverything_outcome)
next
  case (QueryOk rows tot)
  have "length rows \<le> ctx_max (written_context query opts)"
    using assms(1) QueryOk unfolding honours_max_def
    by (metis engine_reply.simps(6))
  then show ?thesis
    using QueryOk assms(2,3) by (simp add: searchWithEverything_outcome written_context_def)
qed

lemma three_lines:
  "map row_line three_matches =
     [''[FILE] C:'' @ [backslash] @ ''Users'' @ [backslash] @ ''x'' @ [backslash] @ ''a.txt'',
      ''[FILE] D:'' @ [backslash] @ ''a.txt'',
      ''[FILE] E:'' @ [backslash] @ ''data'' @ [backslash] @ ''a.txt'']"
  by (simp add: three_matches_def row_line_def file_row_def fullPath_def type_tag_def)

lemma show_nat_small:
  "show_nat 1 = ''1''" "show_nat 2 = ''2''" "show_nat 3 = ''3''"
  "show_nat (Suc 0) = ''1''" "show_nat (Suc (Suc 0)) = ''2''"
  by (simp_all add: show_nat.simps digit_def)

lemma or_100_within:
  "within 1 hi maxResults \<Longrightarrow> 1 \<le> d \<Longrightarrow>
   or_100 (Some (or_default maxResults d)) = or_default maxResults d"
  by (cases maxResults) auto

lemma call_tool_cap:
  assumes "schema_ok c"
  shows "ctx_max (queryContext (snd (call_tool eng c s))) = requested_max c"
proof (cases c)
  case (Search_files query maxResults matchCase matchWholeWord regex)
  then show ?thesis
    using assms or_100_within[of 20 maxResults 20]
    by (simp add: search_files_def split_beta searchWithEverything_context written_context_def
          search_files_schema_def del: or_100.simps)
next
  case (Search_files_advanced query path extension size' dateModified
          maxResults matchCase matchWholeWord regex sortBy)
  then show ?thesis
    using assms or_100_within[of 1000 maxResults 100]
    by (simp add: search_files_advanced_def split_beta Let_def searchWithEverything_context
          written_context_def search_files_advanced_schema_def del: or_100.simps)
next
  case (Find_duplicates filename path maxResults)
  then show ?thesis
    using assms or_100_within[of 1000 maxResults 50]
    by (simp add: find_duplicates_def split_beta Let_def searchWithEverything_context
          written_context_def find_duplicates_schema_def no_options_def del: or_100.simps)
next
  case (Search_content content fileTypes path maxResults)
  then show ?thesis
    using assms or_100_within[of 1000 maxResults 50]
    by (simp add: search_content_def split_beta Let_def searchWithEverything_context
          written_context_def search_content_schema_def no_options_def del: or_100.simps)
qed

lemma searchWithEverything_shown:
  assumes "honours_max eng"
    and "\<not> truthy (error (fst (searchWithEverything eng query opts s)))"
  shows "results (fst (searchWithEverything eng query opts s)) =
           map row_line (resultList (snd (searchWithEverything eng query opts s)))
         \<and> length (resultList (snd (searchWithEverything eng query opts s)))
             \<le> ctx_max (queryContext (snd (searchWithEverything eng query opts s)))"
proof (cases "eng (written_context query opts)")
  case (QueryFailed code)
  then show ?thesis
    using assms(2) by (simp add: searchWithEverything_outcome errorMessage_not_empty)
next
  case (QueryOk rows tot)
  have "length rows \<le> ctx_max (written_context query opts)"
    using assms(1) QueryOk unfolding honours_max_def
    by (metis engine_reply.simps(6))
  then show ?thesis
    using QueryOk searchWithEverything_resultList[of eng query opts rows tot s]
    by (simp add: searchWithEverything_outcome searchWithEverything_context)
qed

lemma call_tool_rows_within_maxResults:
  assumes "honours_max eng" and "schema_ok c" and "\<not> resp_isError (fst (call_tool eng c s))"
  shows "length (resultList (snd (call_tool eng c s))) \<le> requested_max c"
proof -
  have cap: "ctx_max (queryContext (snd (call_tool eng c s))) = requested_max c"
    using assms(2) by (rule call_tool_cap)
  have "length (resultList (snd (call_tool eng c s)))
          \<le> ctx_max (queryContext (snd (call_tool eng c s)))"
  proof (cases c)
    case (Search_files query maxResults matchCase matchWholeWord regex)
    then show ?thesis
      using assms(3) searchWithEverything_shown[OF assms(1)]
      by (auto simp: search_files_def split_beta error_response_def text_response_def
            split: if_splits)
  next
    case (Search_files_advanced query path extension size' dateModified
            maxResults matchCase matchWholeWord regex sortBy)
    then show ?thesis
      using assms(3) searchWithEverything_shown[OF assms(1)]
      by (auto simp: search_files_advanced_def split_beta Let_def error_response_def
            text_response_def split: if_splits)
  next
    case (Find_duplicates filename path maxResults)
    then show ?thesis
      using assms(3) searchWithEverything_shown[OF assms(1)]
      by (auto simp: find_duplicates_def split_beta Let_def error_response_def
            text_response_def split: if_splits)
  next
    case (Search_content content fileTypes path maxResults)
    then show ?thesis
      using assms(3) searchWithEverything_shown[OF assms(1)]
      by (auto simp: search_content_def split_beta Let_def error_response_def
            text_response_def split: if_splits)
  qed
  then show ?thesis using cap by simp
qed

subsection \<open>Splitting at a separator\<close>

lemma split_str_not_Nil: "split_str sep s \<noteq> []"
  by (induction s) (auto split: list.splits)

lemma length_split_str:
  "length (split_str sep s) = Suc (length (filter (\<lambda>c. c = sep) s))"
proof (induction s)
  case Nil
  then show ?case by simp
next
  case (Cons c cs)
  then show ?case
    using split_str_not_Nil[of sep cs] by (cases "split_str sep cs") auto
qed

lemma join_split_str: "join [sep] (split_str sep s) = s"
proof (induction s)
  case Nil
  then show ?case by simp
next
  case (Cons c cs)
  obtain r rs where r: "split_str sep cs = r # rs"
    using split_str_not_Nil[of sep cs] by (cases "split_str sep cs") auto
  show ?case
  proof (cases "c = sep")
    case True
    then show ?thesis using Cons r by simp
  next
    case False
    then show ?thesis using Cons r by (cases rs) auto
  qed
qed

lemma split_str_pieces: "piece \<in> set (split_str sep s) \<Longrightarrow> sep \<notin> set piece"
proof (induction s arbitrary: piece)
  case Nil
  then show ?case by simp
next
  case (Cons c cs)
  obtain r rs where r: "split_str sep cs = r # rs"
    using split_str_not_Nil[of sep cs] by (cases "split_str sep cs") auto
  show ?case
  proof (cases "c = sep")
    case True
    then show ?thesis using Cons by auto
  next
    case False
    then show ?thesis using Cons r by auto
  qed
qed

subsection \<open>Results and their count\<close>

text \<open>
  Claim C9. The results list of \<open>searchWithEverything\<close> has exactly \<open>totalResults\<close>
  entries. On success both come from the one value of \<open>Everything_GetNumResults\<close>, and
  the entry at each index below it is the line the loop body forms for that index.
\<close>

theorem results_length_is_totalResults:
  "length (results (fst (searchWithEverything eng query opts s))) =
     totalResults (fst (searchWithEverything eng query opts s))
   \<and> (error (fst (searchWithEverything eng query opts s)) = None \<longrightarrow>
        totalResults (fst (searchWithEverything eng query opts s)) =
          Everything_GetNumResults (snd (searchWithEverything eng query opts s))
        \<and> (\<forall>i < Everything_GetNumResults (snd (searchWithEverything eng query opts s)).
              result_line (snd (searchWithEverything eng query opts s)) i =
                Inr (results (fst (searchWithEverything eng query opts s)) ! i)))"
proof (cases "eng (written_context query opts)")
  case (QueryFailed code)
  then show ?thesis by (simp add: searchWithEverything_outcome)
next
  case (QueryOk rows tot)
  then show ?thesis
    using searchWithEverything_resultList[of eng query opts rows tot s]
    by (simp add: searchWithEverything_outcome Everything_GetNumResults_def result_line_row)
qed

theorem results_length_is_totalResults_witness:
  "error (fst (searchWithEverything (capped_engine three_matches) ''a.txt'' no_options stale)) = None
   \<and> length (results (fst (searchWithEverything (capped_engine three_matches) ''a.txt'' no_options stale))) = 3
   \<and> Everything_GetNumResults
        (snd (searchWithEverything (capped_engine three_matches) ''a.txt'' no_options stale)) = 3"
proof -
  have ok: "error (fst (searchWithEverything (capped_engine three_matches) ''a.txt'' no_options stale)) = None"
    by (simp add: searchWithEverything_outcome capped_engine_three)
  have tot: "totalResults (fst (searchWithEverything (capped_engine three_matches) ''a.txt'' no_options stale)) = 3"
    by (simp add: searchWithEverything_outcome capped_engine_three)
      (simp add: no_options_def three_matches_def)
  show ?thesis
    using ok tot
      results_length_is_totalResults[of "capped_engine three_matches" "''a.txt''" no_options stale]
    by simp
qed

text \<open>
  Claim C1, at the input where the code departs from it: three files match, \<open>search_files\<close>
  is called with \<open>maxResults = 2\<close>. The engine shows two rows and knows of three matches;
  the response counts two files, the number of lines, and the total of three appears
  nowhere. The bound on the number of lines is \<open>result_lines_within_maxResults\<close>
  and \<open>call_tool_rows_within_maxResults\<close> above.
\<close>

theorem search_files_total_is_shown_count:
  \<open>search_files_schema (Some 2)
   \<and> length three_matches = 3
   \<and> totResults (snd (search_files (capped_engine three_matches) ''a.txt'' (Some 2)
        None None None stale)) = 3
   \<and> fst (search_files (capped_engine three_matches) ''a.txt'' (Some 2) None None None stale) =
       \<lparr>resp_text = ''Found 2 files (showing 2):'' @ [newline, newline]
          @ ''[FILE] C:'' @ [backslash] @ ''Users'' @ [backslash] @ ''x'' @ [backslash] @ ''a.txt''
          @ [newline] @ ''[FILE] D:'' @ [backslash] @ ''a.txt'',
        resp_isError = False\<rparr>\<close>
proof -
  let ?o = "\<lparr>opt_maxResults = Some (2::nat), opt_matchCase = Some False,
             opt_matchWholeWord = Some False, opt_regex = Some False, opt_sortBy = None\<rparr>"
  have e: "capped_engine three_matches (written_context ''a.txt'' ?o) =
        QueryOk (take 2 three_matches) 3"
    by (simp add: capped_engine_three)
  have out: "fst (searchWithEverything (capped_engine three_matches) ''a.txt'' ?o stale) =
        \<lparr>results = take 2 (map row_line three_matches), totalResults = 2, error = None\<rparr>"
    by (simp add: searchWithEverything_outcome e take_map) (simp add: three_matches_def)
  have tot: "totResults (snd (searchWithEverything (capped_engine three_matches) ''a.txt'' ?o stale)) = 3"
    using searchWithEverything_resultList[of "capped_engine three_matches" "''a.txt''" ?o _ 3 stale] e
    by simp
  show ?thesis
    using tot
    by (simp add: search_files_def split_beta out three_lines show_nat_small text_response_def
          search_files_schema_def)
       (simp add: three_matches_def)
qed

subsection \<open>The query context\<close>


text \<open>
  Claim C8. With the engine unchanged, a tool called a second time with the same
  parameters, on the state the first call left behind, gives the same response; the
  search function gives the same ordered results.
\<close>

theorem repeated_call_same_response:
  "fst (call_tool eng c (snd (call_tool eng c s))) = fst (call_tool eng c s)
   \<and> results (fst (searchWithEverything eng query opts
                      (snd (searchWithEverything eng query opts s)))) =
       results (fst (searchWithEverything eng query opts s))
   \<and> fst (searchWithEverything eng query opts (snd (searchWithEverything eng query opts s))) =
       fst (searchWithEverything eng query opts s)"
  using call_tool_indep[of eng c "snd (call_tool eng c s)" s]
    searchWithEverything_fst_indep[of eng query opts "snd (searchWithEverything eng query opts s)" s]
  by simp

subsection \<open>Query texts\<close>

text \<open>
  Claim C2. \<open>search_files_advanced\<close> puts each filter that is provided (defined and not
  empty) in front of the text built so far, path first, then extension, size and date
  modified; with all four the text is dm, size, ext, path, query, and the example of the
  specification comes out as stated. This text is what the engine is given.
\<close>

theorem advanced_searchQuery_order:
  \<open>advanced_searchQuery query path extension size' dateModified =
       (if truthy dateModified then ''dm:'' @ template dateModified @ '' '' else [])
     @ (if truthy size' then ''size:'' @ template size' @ '' '' else [])
     @ (if truthy extension then ''ext:'' @ template extension @ '' '' else [])
     @ (if truthy path then ''path:"'' @ template path @ ''" '' else [])
     @ query
   \<and> (p \<noteq> [] \<and> e \<noteq> [] \<and> z \<noteq> [] \<and> d \<noteq> [] \<longrightarrow>
        advanced_searchQuery query (Some p) (Some e) (Some z) (Some d) =
          ''dm:'' @ d @ '' size:'' @ z @ '' ext:'' @ e @ '' path:"'' @ p @ ''" '' @ query)
   \<and> advanced_searchQuery ''report'' (Some (''C:'' @ [backslash] @ ''Docs'')) (Some ''pdf'')
        None None = ''ext:pdf path:"C:'' @ [backslash] @ ''Docs" report''
   \<and> ctx_search (queryContext (snd (search_files_advanced eng query path extension size'
        dateModified maxResults matchCase matchWholeWord regex sortBy s))) =
        advanced_searchQuery query path extension size' dateModified\<close>
proof -
  have sent: "ctx_search (queryContext (snd (search_files_advanced eng query path extension size'
        dateModified maxResults matchCase matchWholeWord regex sortBy s))) =
        advanced_searchQuery query path extension size' dateModified"
    by (simp add: search_files_advanced_def split_beta Let_def searchWithEverything_context
          written_context_def)
  show ?thesis
    using sent by (simp add: advanced_searchQuery_def)
qed

theorem advanced_searchQuery_order_witness:
  \<open>advanced_searchQuery ''report'' (Some ''D:'') (Some ''pdf'') (Some ''>1mb'') (Some ''today'')
     = ''dm:today size:>1mb ext:pdf path:"D:" report''\<close>
  using advanced_searchQuery_order[of "''report''" "Some ''D:''" "Some ''pdf''" "Some ''>1mb''"
          "Some ''today''" "''D:''" "''pdf''" "''>1mb''" "''today''"]
  by simp

text \<open>
  Claim C5. \<open>search_content\<close> builds the content clause, puts the group of file types in
  front of it (one \<open>ext:\<close> alternative per piece between semicolons, each trimmed) and
  the path in front of that; \<open>txt;pdf\<close> gives the group of the specification.
\<close>

theorem content_searchQuery_form:
  \<open>content_searchQuery content fileTypes path =
       (if truthy path then ''path:"'' @ template path @ ''" '' else [])
     @ (if truthy fileTypes
        then ''('' @ join '' | '' (map (\<lambda>t. ''ext:'' @ trim t)
                                    (split_str (CHR '';'') (template fileTypes))) @ '') ''
        else [])
     @ ''content:"'' @ content @ ''"''
   \<and> (ft \<noteq> [] \<and> p \<noteq> [] \<longrightarrow>
        content_searchQuery content (Some ft) (Some p) =
          ''path:"'' @ p @ ''" ('' @ join '' | '' (map (\<lambda>t. ''ext:'' @ trim t)
                                                   (split_str (CHR '';'') ft))
            @ '') content:"'' @ content @ ''"'')
   \<and> length (map (\<lambda>t. ''ext:'' @ trim t) (split_str (CHR '';'') ft)) =
        Suc (length (filter (\<lambda>c. c = CHR '';'') ft))
   \<and> join '';'' (split_str (CHR '';'') ft) = ft
   \<and> content_searchQuery content (Some ''txt;pdf'') None =
        ''(ext:txt | ext:pdf) content:"'' @ content @ ''"''
   \<and> ctx_search (queryContext (snd (search_content eng content fileTypes path maxResults s))) =
        content_searchQuery content fileTypes path\<close>
proof -
  have sent: "ctx_search (queryContext (snd (search_content eng content fileTypes path maxResults s))) =
        content_searchQuery content fileTypes path"
    by (simp add: search_content_def split_beta Let_def searchWithEverything_context
          written_context_def)
  have ex: \<open>content_searchQuery content (Some ''txt;pdf'') None =
        ''(ext:txt | ext:pdf) content:"'' @ content @ ''"''\<close>
    by (simp add: content_searchQuery_def content_types_def trim_def is_space_def)
  show ?thesis
    using sent ex join_split_str[of "CHR '';''" ft]
    by (simp add: content_searchQuery_def content_types_def length_split_str)
qed

theorem content_searchQuery_form_witness:
  \<open>content_searchQuery ''main'' (Some '' js; ts ;py'') (Some ''C:'') =
     ''path:"C:" (ext:js | ext:ts | ext:py) content:"main"''\<close>
  using content_searchQuery_form[of "''main''" "Some '' js; ts ;py''" "Some ''C:''"
          "'' js; ts ;py''" "''C:''"]
  by (simp add: trim_def is_space_def)

subsection \<open>Failures of the query\<close>

text \<open>
  Claim C3 as stated: on error code 2 the text of the response equals the message. It
  does not; the handler puts \<open>Error: \<close> in front.
\<close>

theorem error_code_2_text_counterexample:
  "resp_text (fst (search_files (failing_engine 2) ''readme'' None None None None stale))
     \<noteq> ''Everything search client is not running''"
  by (simp add: search_files_def split_beta failing_engine_outcome errorMessage_def
        error_response_def sdk_constants)

text \<open>
  Claim C3, amended. When the query call fails, the outcome carries the message for the
  last-error code: nine fixed messages for the codes 1 to 9, the generic message with the
  number for any other code. Each tool flags its response as an error and its text is
  \<open>Error: \<close> followed by the message (and by the note on content indexing for
  \<open>search_content\<close>); for code 2 the message is that the search client is not running.
\<close>

theorem query_failure_messages:
  \<open>(Everything_QueryW eng (set_search_parameters query opts s) = (False, s') \<longrightarrow>
      fst (searchWithEverything eng query opts s) =
        \<lparr>results = [], totalResults = 0,
         error = Some (errorMessage (Everything_GetLastError s'))\<rparr>)
   \<and> map errorMessage [1, 2, 3, 4, 5, 6, 7, 8, 9] =
       [''Out of memory'', ''Everything search client is not running'',
        ''Unable to register window class'', ''Unable to create listening window'',
        ''Unable to create listening thread'', ''Invalid index'', ''Invalid call'',
        ''Invalid request data, request data first'', ''Bad parameter'']
   \<and> (code = 0 \<or> 9 < code \<longrightarrow>
        errorMessage code = ''Everything query failed with error code: '' @ show_nat code)
   \<and> fst (search_files (failing_engine code) query maxResults matchCase matchWholeWord regex s) =
       \<lparr>resp_text = ''Error: '' @ errorMessage code, resp_isError = True\<rparr>
   \<and> fst (search_files_advanced (failing_engine code) query path extension size' dateModified
            maxResults matchCase matchWholeWord regex sortBy s) =
       \<lparr>resp_text = ''Error: '' @ errorMessage code, resp_isError = True\<rparr>
   \<and> fst (find_duplicates (failing_engine code) query path maxResults s) =
       \<lparr>resp_text = ''Error: '' @ errorMessage code, resp_isError = True\<rparr>
   \<and> fst (search_content (failing_engine code) query fileTypes path maxResults s) =
       \<lparr>resp_text = ''Error: '' @ errorMessage code @ ''. '' @ content_note,
        resp_isError = True\<rparr>
   \<and> error (fst (searchWithEverything (failing_engine 2) query opts s)) =
       Some ''Everything search client is not running''
   \<and> fst (search_files (failing_engine 2) query maxResults matchCase matchWholeWord regex s) =
       \<lparr>resp_text = ''Error: Everything search client is not running'', resp_isError = True\<rparr>\<close>
proof -
  have fail: "fst (searchWithEverything eng query opts s) =
        \<lparr>results = [], totalResults = 0,
         error = Some (errorMessage (Everything_GetLastError s'))\<rparr>"
    if "Everything_QueryW eng (set_search_parameters query opts s) = (False, s')"
    using that
    by (cases "eng (written_context query opts)")
       (auto simp: searchWithEverything_outcome Everything_QueryW_def
          set_search_parameters_context Everything_GetLastError_def)
  have table: "map errorMessage [1, 2, 3, 4, 5, 6, 7, 8, 9] =
       [''Out of memory'', ''Everything search client is not running'',
        ''Unable to register window class'', ''Unable to create listening window'',
        ''Unable to create listening thread'', ''Invalid index'', ''Invalid call'',
        ''Invalid request data, request data first'', ''Bad parameter'']"
    by (simp add: errorMessage_def sdk_constants)
  have other: "errorMessage code = ''Everything query failed with error code: '' @ show_nat code"
    if "code = 0 \<or> 9 < code"
    using that by (auto simp: errorMessage_def sdk_constants)
  have two: "errorMessage 2 = ''Everything search client is not running''"
    by (simp add: errorMessage_def sdk_constants)
  have t1: "fst (search_files (failing_engine c) query maxResults matchCase matchWholeWord regex s) =
       \<lparr>resp_text = ''Error: '' @ errorMessage c, resp_isError = True\<rparr>" for c
    by (simp add: search_files_def split_beta failing_engine_outcome errorMessage_not_empty
          error_response_def)
  have t2: "fst (search_files_advanced (failing_engine code) query path extension size' dateModified
            maxResults matchCase matchWholeWord regex sortBy s) =
       \<lparr>resp_text = ''Error: '' @ errorMessage code, resp_isError = True\<rparr>"
    by (simp add: search_files_advanced_def split_beta Let_def failing_engine_outcome
          errorMessage_not_empty error_response_def)
  have t3: "fst (find_duplicates (failing_engine code) query path maxResults s) =
       \<lparr>resp_text = ''Error: '' @ errorMessage code, resp_isError = True\<rparr>"
    by (simp add: find_duplicates_def split_beta Let_def failing_engine_outcome
          errorMessage_not_empty error_response_def)
  have t4: "fst (search_content (failing_engine code) query fileTypes path maxResults s) =
       \<lparr>resp_text = ''Error: '' @ errorMessage code @ ''. '' @ content_note,
        resp_isError = True\<rparr>"
    by (simp add: search_content_def split_beta Let_def failing_engine_outcome
          errorMessage_not_empty error_response_def)
  have e2: "error (fst (searchWithEverything (failing_engine 2) query opts s)) =
       Some ''Everything search client is not running''"
    by (simp add: failing_engine_outcome two)
  have r2: "fst (search_files (failing_engine 2) query maxResults matchCase matchWholeWord regex s) =
       \<lparr>resp_text = ''Error: Everything search client is not running'', resp_isError = True\<rparr>"
    using t1[of 2] by (simp add: two)
  show ?thesis
    using fail table other t1[of code] t2 t3 t4 e2 r2 by blast
qed

theorem query_failure_messages_witness:
  "fst (searchWithEverything (failing_engine 12) ''readme'' no_options stale) =
     \<lparr>results = [], totalResults = 0,
      error = Some ''Everything query failed with error code: 12''\<rparr>"
proof -
  have q: "Everything_QueryW (failing_engine 12) (set_search_parameters ''readme'' no_options stale)
        = (False, (set_search_parameters ''readme'' no_options stale)\<lparr>lastError := 12\<rparr>)"
    by (simp add: Everything_QueryW_def failing_engine_def)
  have m: "errorMessage 12 = ''Everything query failed with error code: '' @ show_nat 12"
    using query_failure_messages[of "failing_engine 12" "''readme''" no_options stale
            "(set_search_parameters ''readme'' no_options stale)\<lparr>lastError := 12\<rparr>" 12]
    by simp
  have d: "show_nat 12 = ''12''"
    by (simp add: show_nat.simps digit_def)
  show ?thesis
    using q m d
      query_failure_messages[of "failing_engine 12" "''readme''" no_options stale
            "(set_search_parameters ''readme'' no_options stale)\<lparr>lastError := 12\<rparr>" 12]
    by (simp add: Everything_GetLastError_def)
qed

subsection \<open>find_duplicates\<close>

lemma find_duplicates_context:
  \<open>queryContext (snd (find_duplicates eng filename path maxResults s)) =
     \<lparr>ctx_search = (if truthy path then ''path:"'' @ template path @ ''" '' @ filename
                     else filename),
      ctx_matchCase = False, ctx_matchWholeWord = True, ctx_regex = False,
      ctx_max = or_100 (Some (or_default maxResults 50)), ctx_offset = 0,
      ctx_requestFlags = 7, ctx_sort = 1\<rparr>\<close>
  by (simp add: find_duplicates_def duplicates_searchQuery_def Let_def split_beta
        searchWithEverything_context written_context_def no_options_def sortOrder_def
        EVERYTHING_SORT_NAME_ASCENDING_def)

lemma find_duplicates_three_cases:
  assumes "eng (written_context (duplicates_searchQuery filename path)
             (no_options\<lparr>opt_maxResults := Some (or_default maxResults 50),
                         opt_matchWholeWord := Some True\<rparr>)) = QueryOk rows tot"
  shows \<open>resp_text (fst (find_duplicates eng filename path maxResults s)) =
     (if length rows > 1 then
        ''Found '' @ show_nat (length rows) @ '' instances of "'' @ filename
          @ ''" (showing '' @ show_nat (length rows) @ ''):'' @ [newline, newline]
          @ join [newline] (map row_line rows)
      else if length rows = 1 then
        ''Found only 1 instance of "'' @ filename @ ''":'' @ [newline, newline]
          @ row_line (hd rows)
      else ''No files found with name "'' @ filename @ ''"'')\<close>
proof (cases rows)
  case Nil
  then show ?thesis
    using assms
    by (simp add: find_duplicates_def Let_def split_beta searchWithEverything_outcome
          text_response_def)
next
  case (Cons r rs)
  then show ?thesis
    using assms
    by (simp add: find_duplicates_def Let_def split_beta searchWithEverything_outcome
          text_response_def)
qed

text \<open>
  Claim C4, at the input where the code departs from it: three files are named \<open>a.txt\<close>.
  With \<open>maxResults = 2\<close> the response counts two instances, with \<open>maxResults = 1\<close> it
  reports the only instance: the count is that of the rows shown, not of the matches.
  The query text, the flags and the three cases are \<open>find_duplicates_context\<close> and
  \<open>find_duplicates_three_cases\<close> above.
\<close>

theorem find_duplicates_counts_shown_rows:
  \<open>find_duplicates_schema (Some 2)
   \<and> find_duplicates_schema (Some 1)
   \<and> length three_matches = 3
   \<and> totResults (snd (find_duplicates (capped_engine three_matches) ''a.txt'' None (Some 2)
        stale)) = 3
   \<and> fst (find_duplicates (capped_engine three_matches) ''a.txt'' None (Some 2) stale) =
       \<lparr>resp_text = ''Found 2 instances of "a.txt" (showing 2):'' @ [newline, newline]
          @ ''[FILE] C:'' @ [backslash] @ ''Users'' @ [backslash] @ ''x'' @ [backslash] @ ''a.txt''
          @ [newline] @ ''[FILE] D:'' @ [backslash] @ ''a.txt'',
        resp_isError = False\<rparr>
   \<and> fst (find_duplicates (capped_engine three_matches) ''a.txt'' None (Some 1) stale) =
       \<lparr>resp_text = ''Found only 1 instance of "a.txt":'' @ [newline, newline]
          @ ''[FILE] C:'' @ [backslash] @ ''Users'' @ [backslash] @ ''x'' @ [backslash] @ ''a.txt'',
        resp_isError = False\<rparr>\<close>
proof -
  let ?o = "\<lambda>m. no_options\<lparr>opt_maxResults := Some (m::nat), opt_matchWholeWord := Some True\<rparr>"
  have e: "capped_engine three_matches (written_context ''a.txt'' (?o m)) =
        QueryOk (take (or_100 (Some m)) three_matches) 3" for m
    by (simp add: capped_engine_three)
  have out2: "fst (searchWithEverything (capped_engine three_matches) ''a.txt'' (?o 2) stale) =
        \<lparr>results = take 2 (map row_line three_matches), totalResults = 2, error = None\<rparr>"
    by (simp add: searchWithEverything_outcome e take_map) (simp add: three_matches_def)
  have out1: "fst (searchWithEverything (capped_engine three_matches) ''a.txt'' (?o 1) stale) =
        \<lparr>results = take 1 (map row_line three_matches), totalResults = 1, error = None\<rparr>"
    by (simp add: searchWithEverything_outcome e take_map) (simp add: three_matches_def)
  have out1': "fst (searchWithEverything (capped_engine three_matches) ''a.txt'' (?o (Suc 0)) stale) =
        \<lparr>results = take 1 (map row_line three_matches), totalResults = 1, error = None\<rparr>"
    using out1 by simp
  have tot: "totResults (snd (searchWithEverything (capped_engine three_matches) ''a.txt'' (?o 2) stale)) = 3"
    using searchWithEverything_resultList[of "capped_engine three_matches" "''a.txt''" "?o 2" _ 3 stale]
      e[of 2]
    by simp
  have a: \<open>fst (find_duplicates (capped_engine three_matches) ''a.txt'' None (Some 2) stale) =
       \<lparr>resp_text = ''Found 2 instances of "a.txt" (showing 2):'' @ [newline, newline]
          @ ''[FILE] C:'' @ [backslash] @ ''Users'' @ [backslash] @ ''x'' @ [backslash] @ ''a.txt''
          @ [newline] @ ''[FILE] D:'' @ [backslash] @ ''a.txt'',
        resp_isError = False\<rparr>\<close>
    by (simp add: find_duplicates_def duplicates_searchQuery_def Let_def split_beta out2 three_lines
          show_nat_small text_response_def)
  have b: \<open>fst (find_duplicates (capped_engine three_matches) ''a.txt'' None (Some 1) stale) =
       \<lparr>resp_text = ''Found only 1 instance of "a.txt":'' @ [newline, newline]
          @ ''[FILE] C:'' @ [backslash] @ ''Users'' @ [backslash] @ ''x'' @ [backslash] @ ''a.txt'',
        resp_isError = False\<rparr>\<close>
    by (simp add: find_duplicates_def duplicates_searchQuery_def Let_def split_beta out1' three_lines
          show_nat_small text_response_def)
  have c: "totResults (snd (find_duplicates (capped_engine three_matches) ''a.txt'' None (Some 2)
        stale)) = 3"
    using tot by (simp add: find_duplicates_def duplicates_searchQuery_def Let_def split_beta)
  show ?thesis
    using a b c by (simp add: three_matches_def find_duplicates_schema_def)
qed

end
